theory Spec2Isabelle
  imports Complex_Main "HOL-Library.Sublist" "HOL-Library.Multiset"
begin

section \<open>JavaScript numbers\<close>

text \<open>
  The handlers compute page numbers with JavaScript's \<^verbatim>\<open>/\<close>, \<^verbatim>\<open>Math.ceil\<close> and
  \<^verbatim>\<open>Math.floor\<close>. A JavaScript number is modelled as an exact rational or one of the
  three non-finite values, so that a division by zero is a value of its own
  (\<^verbatim>\<open>1/0 = Infinity\<close>, \<^verbatim>\<open>0/0 = NaN\<close>) and not HOL's \<open>x / 0 = 0\<close>. Integers are
  exact below \<open>2^53\<close>, which is the range the model speaks about.
\<close>

datatype jsnum = Fin rat | PosInf | NegInf | NaN

definition js_div :: "int \<Rightarrow> int \<Rightarrow> jsnum" where
  "js_div a b =
     (if b = 0 then (if a = 0 then NaN else if 0 < a then PosInf else NegInf)
      else Fin (of_int a / of_int b))"

fun js_ceil :: "jsnum \<Rightarrow> jsnum" where
  "js_ceil (Fin r) = Fin (of_int \<lceil>r\<rceil>)"
| "js_ceil x = x"

fun js_floor :: "jsnum \<Rightarrow> jsnum" where
  "js_floor (Fin r) = Fin (of_int \<lfloor>r\<rfloor>)"
| "js_floor x = x"

fun js_plus :: "jsnum \<Rightarrow> int \<Rightarrow> jsnum" where
  "js_plus (Fin r) n = Fin (r + of_int n)"
| "js_plus x n = x"

text \<open>\<^verbatim>\<open>v || d\<close> for a query parameter that is either \<^verbatim>\<open>undefined\<close> or a number:
  \<^verbatim>\<open>undefined\<close> and \<^verbatim>\<open>0\<close> are falsy.\<close>

definition or_default :: "int option \<Rightarrow> int \<Rightarrow> int" where
  "or_default v d = (case v of None \<Rightarrow> d | Some n \<Rightarrow> if n = 0 then d else n)"

section \<open>Request validation (express-validator)\<close>

text \<open>
  \<^verbatim>\<open>req.query\<close> maps a parameter name to its raw string; an absent parameter is
  \<^verbatim>\<open>undefined\<close>, here \<open>None\<close>. (Repeated and bracketed parameters, which the query
  parser turns into arrays and objects, are outside the model.) A string is a list of
  characters, and \<open>length\<close> counts characters; the type \<open>char\<close> has the code points
  below 256.
\<close>

type_synonym query = "string \<Rightarrow> string option"

record validation_error =
  err_value :: "string option"
  msg :: string
  path :: string

text \<open>The library turns the value into a string before a standard validator sees it;
  \<^verbatim>\<open>undefined\<close> becomes the empty string.\<close>

definition toString :: "string option \<Rightarrow> string" where
  "toString v = (case v of None \<Rightarrow> [] | Some s \<Rightarrow> s)"

definition is_digit :: "char \<Rightarrow> bool" where
  "is_digit c = (c \<in> set ''0123456789'')"

definition digit_value :: "char \<Rightarrow> int" where
  "digit_value c = int (of_char c) - 48"

definition digits_value :: "string \<Rightarrow> int" where
  "digits_value s = foldl (\<lambda>a c. 10 * a + digit_value c) 0 s"

text \<open>The regular expression \<^verbatim>\<open>/^[-+]?[0-9]+$/\<close> of \<^verbatim>\<open>isInt\<close>.\<close>

definition int_regex :: "string \<Rightarrow> bool" where
  "int_regex s =
     (case s of
        [] \<Rightarrow> False
      | c # cs \<Rightarrow>
          if c = CHR ''-'' \<or> c = CHR ''+'' then cs \<noteq> [] \<and> list_all is_digit cs
          else list_all is_digit (c # cs))"

text \<open>The number a string matching the expression denotes: what \<^verbatim>\<open>parseInt(s, 10)\<close>
  returns and what the comparison with \<^verbatim>\<open>min\<close> and \<^verbatim>\<open>max\<close> sees.\<close>

definition parseInt :: "string \<Rightarrow> int" where
  "parseInt s =
     (case s of
        [] \<Rightarrow> 0
      | c # cs \<Rightarrow>
          if c = CHR ''-'' then - digits_value cs
          else if c = CHR ''+'' then digits_value cs
          else digits_value (c # cs))"

definition isInt :: "int option \<Rightarrow> int option \<Rightarrow> string option \<Rightarrow> bool" where
  "isInt lo hi v =
     (let str = toString v in
      int_regex str
      \<and> (case lo of None \<Rightarrow> True | Some m \<Rightarrow> m \<le> parseInt str)
      \<and> (case hi of None \<Rightarrow> True | Some m \<Rightarrow> parseInt str \<le> m))"

text \<open>The sanitizer \<^verbatim>\<open>toInt()\<close>: the parameter, when present, is replaced by its number.\<close>

definition toInt :: "string option \<Rightarrow> int option" where
  "toInt v = map_option parseInt v"

text \<open>
  Which strings are calendar dates, and which day each denotes, is decided outside the
  repository three times: by the validator's \<^verbatim>\<open>isDate\<close>, by JavaScript's \<^verbatim>\<open>Date\<close> and
  by PostgreSQL's \<^verbatim>\<open>::date\<close>. The model takes one reading \<open>cal\<close> of date strings as a
  parameter: \<open>cal s\<close> is the day number of \<open>s\<close> (days since the epoch), \<open>None\<close> when \<open>s\<close>
  is not a date.
\<close>

type_synonym calendar = "string \<Rightarrow> int option"

definition isDate :: "calendar \<Rightarrow> string option \<Rightarrow> bool" where
  "isDate cal v = (cal (toString v) \<noteq> None)"

definition isIn :: "string list \<Rightarrow> string option \<Rightarrow> bool" where
  "isIn allowed v = (toString v \<in> set allowed)"

definition isString :: "string option \<Rightarrow> bool" where
  "isString v = (v \<noteq> None)"

definition isLength :: "nat \<Rightarrow> string option \<Rightarrow> bool" where
  "isLength n v = (n \<le> length (toString v))"

text \<open>
  A validation chain \<^verbatim>\<open>query(field)...\<close>: the field, whether \<^verbatim>\<open>.optional()\<close> was
  called, and its validators in order, each with its message (\<^verbatim>\<open>withMessage\<close> names
  the validator before it; the library's default is \<^verbatim>\<open>Invalid value\<close>). A chain does
  not stop at its first failing validator, and the chains of a route all run.
\<close>

record chain =
  field :: string
  optional :: bool
  checks :: "((string option \<Rightarrow> bool) \<times> string) list"

definition run_chain :: "query \<Rightarrow> chain \<Rightarrow> validation_error list" where
  "run_chain q c =
     (if optional c \<and> q (field c) = None then []
      else map (\<lambda>(p, m). \<lparr>err_value = q (field c), msg = m, path = field c\<rparr>)
             (filter (\<lambda>(p, m). \<not> p (q (field c))) (checks c)))"

definition validationResult :: "chain list \<Rightarrow> query \<Rightarrow> validation_error list" where
  "validationResult cs q = concat (map (run_chain q) cs)"

section \<open>The data store\<close>

record transaction =
  hash :: string
  block_id :: int
  time :: int
  output_total :: rat
  output_total_usd :: rat
  fee :: rat
  size_bytes :: int

record bucket_row =
  bucket :: "int option"
  transaction_count :: int
  total_volume :: rat
  avg_fee :: rat
  max_transaction :: rat
  min_transaction :: rat

text \<open>An error thrown by \<^verbatim>\<open>pool.query\<close>: its \<^verbatim>\<open>message\<close> and its \<^verbatim>\<open>code\<close>.\<close>

record db_error =
  message :: string
  code :: string

text \<open>
  The data store: the rows of the table \<^verbatim>\<open>transactions\<close> (\<open>time\<close> in seconds since the
  epoch), the extension's \<^verbatim>\<open>time_bucket(interval, time)\<close>, and whether the executor is
  failing, in which case every query throws that error.
\<close>

record database =
  transactions :: "transaction list"
  time_bucket :: "string \<Rightarrow> int \<Rightarrow> int"
  failure :: "db_error option"

text \<open>
  The statements the handlers issue, each with its bound values \<^verbatim>\<open>$1, $2, ...\<close>:
  \<^item> \<open>SelectPage l o\<close>: \<^verbatim>\<open>SELECT * FROM transactions ORDER BY time DESC LIMIT $1 OFFSET $2\<close>;
  \<^item> \<open>SelectRange s e l o\<close>: \<^verbatim>\<open>SELECT * FROM transactions WHERE time >= $1::date AND
    time <= ($2::date + interval '1 day - 1 second') ORDER BY time DESC LIMIT $3 OFFSET $4\<close>;
  \<^item> \<open>SelectSearch p l\<close>: \<^verbatim>\<open>SELECT * FROM transactions WHERE hash ILIKE $1 ORDER BY time
    DESC LIMIT $2\<close>;
  \<^item> \<open>SelectByHash h\<close>: \<^verbatim>\<open>SELECT * FROM transactions WHERE hash = $1\<close>;
  \<^item> \<open>CountAll\<close>, \<open>CountRange s e\<close>, \<open>CountSearch p\<close>: \<^verbatim>\<open>SELECT COUNT(*) as total FROM
    transactions\<close> with the \<^verbatim>\<open>WHERE\<close> clause of the statement of the same name;
  \<^item> \<open>BucketQ i l\<close>: the aggregates of \<^verbatim>\<open>transactions\<close> grouped by
    \<^verbatim>\<open>time_bucket($1, time)\<close>, \<^verbatim>\<open>ORDER BY bucket DESC LIMIT $2\<close>.
\<close>

datatype row_query =
    SelectPage int int
  | SelectRange "string option" "string option" int int
  | SelectSearch string int
  | SelectByHash string

datatype count_query =
    CountAll
  | CountRange "string option" "string option"
  | CountSearch string

datatype sql = RowQ row_query | CountQ count_query | BucketQ "string option" int

text \<open>\<^verbatim>\<open>ORDER BY time DESC\<close>, then \<^verbatim>\<open>LIMIT l OFFSET o\<close>; PostgreSQL rejects a negative
  limit or offset. (Among rows of equal \<open>time\<close> PostgreSQL fixes no order; the model
  takes one.)\<close>

definition order_by_time_desc :: "transaction list \<Rightarrow> transaction list" where
  "order_by_time_desc xs = rev (sort_key time xs)"

definition limit_offset :: "int \<Rightarrow> int \<Rightarrow> 'a list \<Rightarrow> db_error + 'a list" where
  "limit_offset l off xs =
     (if l < 0 then Inl \<lparr>message = ''LIMIT must not be negative'', code = ''2201W''\<rparr>
      else if off < 0 then Inl \<lparr>message = ''OFFSET must not be negative'', code = ''2201X''\<rparr>
      else Inr (take (nat l) (drop (nat off) xs)))"

text \<open>
  \<^verbatim>\<open>LIKE\<close>: \<^verbatim>\<open>%\<close> stands for any run of characters, \<^verbatim>\<open>_\<close> for any one character, and
  a backslash takes the character after it literally. (PostgreSQL raises an error when
  matching reaches a backslash that ends the pattern; the handlers' patterns end in
  \<^verbatim>\<open>%\<close>, and the model lets such a pattern match nothing.)
\<close>

fun like_match :: "string \<Rightarrow> string \<Rightarrow> bool" where
  "like_match [] s = (s = [])"
| "like_match (p # ps) [] = (p = CHR ''%'' \<and> like_match ps [])"
| "like_match (p # ps) (c # cs) =
     (if p = CHR ''%'' then like_match ps (c # cs) \<or> like_match (p # ps) cs
      else if p = CHR ''_'' then like_match ps cs
      else if p = CHR 0x5C then
        (case ps of [] \<Rightarrow> False | e # ps' \<Rightarrow> e = c \<and> like_match ps' cs)
      else p = c \<and> like_match ps cs)"

definition lower_char :: "char \<Rightarrow> char" where
  "lower_char c =
     (case map_of (zip ''ABCDEFGHIJKLMNOPQRSTUVWXYZ'' ''abcdefghijklmnopqrstuvwxyz'') c of
        None \<Rightarrow> c
      | Some l \<Rightarrow> l)"

definition lower :: "string \<Rightarrow> string" where
  "lower s = map lower_char s"

text \<open>\<^verbatim>\<open>s ILIKE p\<close>: \<^verbatim>\<open>LIKE\<close> after folding the letters \<open>A\<close> to \<open>Z\<close> of both sides to
  lower case.\<close>

definition ilike :: "string \<Rightarrow> string \<Rightarrow> bool" where
  "ilike s p = like_match (lower p) (lower s)"

text \<open>\<^verbatim>\<open>time >= $1::date AND time <= ($2::date + interval '1 day - 1 second')\<close>, for the
  day numbers of the two dates: from the first second of the first day to the last
  second of the last.\<close>

definition in_range :: "int \<Rightarrow> int \<Rightarrow> transaction \<Rightarrow> bool" where
  "in_range ds de t = (86400 * ds \<le> time t \<and> time t \<le> 86400 * de + 86399)"

definition invalid_date :: db_error where
  "invalid_date = \<lparr>message = ''invalid input syntax for type date'', code = ''22007''\<rparr>"

text \<open>The \<^verbatim>\<open>WHERE\<close> clause of the range statements. A bound value that is
  \<^verbatim>\<open>undefined\<close> is sent as \<^verbatim>\<open>NULL\<close>, and no row satisfies a comparison with it.\<close>

definition range_rows ::
  "calendar \<Rightarrow> string option \<Rightarrow> string option \<Rightarrow> transaction list \<Rightarrow> db_error + transaction list"
where
  "range_rows cal s e xs =
     (case (s, e) of
        (Some s', Some e') \<Rightarrow>
          (case (cal s', cal e') of
             (Some ds, Some de) \<Rightarrow> Inr (filter (in_range ds de) xs)
           | _ \<Rightarrow> Inl invalid_date)
      | (Some s', None) \<Rightarrow> (if cal s' = None then Inl invalid_date else Inr [])
      | (None, Some e') \<Rightarrow> (if cal e' = None then Inl invalid_date else Inr [])
      | (None, None) \<Rightarrow> Inr [])"

definition select_rows :: "calendar \<Rightarrow> database \<Rightarrow> row_query \<Rightarrow> db_error + transaction list" where
  "select_rows cal db q =
     (case failure db of
        Some err \<Rightarrow> Inl err
      | None \<Rightarrow>
          (case q of
             SelectPage l off \<Rightarrow> limit_offset l off (order_by_time_desc (transactions db))
           | SelectRange s e l off \<Rightarrow>
               (case range_rows cal s e (transactions db) of
                  Inl err \<Rightarrow> Inl err
                | Inr xs \<Rightarrow> limit_offset l off (order_by_time_desc xs))
           | SelectSearch p l \<Rightarrow>
               limit_offset l 0
                 (order_by_time_desc (filter (\<lambda>t. ilike (hash t) p) (transactions db)))
           | SelectByHash h \<Rightarrow> Inr (filter (\<lambda>t. hash t = h) (transactions db))))"

definition select_count :: "calendar \<Rightarrow> database \<Rightarrow> count_query \<Rightarrow> db_error + int" where
  "select_count cal db q =
     (case failure db of
        Some err \<Rightarrow> Inl err
      | None \<Rightarrow>
          (case q of
             CountAll \<Rightarrow> Inr (int (length (transactions db)))
           | CountRange s e \<Rightarrow>
               (case range_rows cal s e (transactions db) of
                  Inl err \<Rightarrow> Inl err
                | Inr xs \<Rightarrow> Inr (int (length xs)))
           | CountSearch p \<Rightarrow>
               Inr (int (length (filter (\<lambda>t. ilike (hash t) p) (transactions db))))))"

text \<open>The aggregates of one group of the bucket statement.\<close>

definition aggregate :: "int option \<Rightarrow> transaction list \<Rightarrow> bucket_row" where
  "aggregate b xs =
     \<lparr>bucket = b,
      transaction_count = int (length xs),
      total_volume = sum_list (map output_total xs),
      avg_fee = sum_list (map fee xs) / of_nat (length xs),
      max_transaction = Max (set (map output_total xs)),
      min_transaction = Min (set (map output_total xs))\<rparr>"

definition select_buckets :: "database \<Rightarrow> string option \<Rightarrow> int \<Rightarrow> db_error + bucket_row list" where
  "select_buckets db interval l =
     (case failure db of
        Some err \<Rightarrow> Inl err
      | None \<Rightarrow>
          (case interval of
             None \<Rightarrow>
               limit_offset l 0
                 (if transactions db = [] then [] else [aggregate None (transactions db)])
           | Some i \<Rightarrow>
               limit_offset l 0
                 (map (\<lambda>b. aggregate (Some b)
                             (filter (\<lambda>t. time_bucket db i (time t) = b) (transactions db)))
                    (rev (sort (remdups (map (\<lambda>t. time_bucket db i (time t))
                                           (transactions db))))))))"

section \<open>Responses\<close>

record pagination =
  limit :: int
  offset :: int
  currentPage :: jsnum
  totalPages :: jsnum

text \<open>
  The JSON bodies the server sends, by the keys they carry:
  \<^item> \<open>ValidationFailed details\<close>: \<^verbatim>\<open>{error: 'Validation failed', details}\<close>;
  \<^item> \<open>ErrorMessage e m\<close>: \<^verbatim>\<open>{error, message}\<close>; \<open>ErrorOnly e\<close>: \<^verbatim>\<open>{error}\<close>;
    \<open>MessageCode m c\<close>: \<^verbatim>\<open>{message, code}\<close>;
  \<^item> \<open>Envelope rows n p\<close>: \<^verbatim>\<open>{rows, totalCount, pagination}\<close>;
    \<open>RowsTotal rows n\<close>: \<^verbatim>\<open>{rows, totalCount}\<close>;
  \<^item> \<open>BucketRows rows\<close>: the array of bucket rows; \<open>Row r\<close>: one transaction.
\<close>

datatype body =
    ValidationFailed "validation_error list"
  | ErrorMessage string string
  | ErrorOnly string
  | MessageCode string string
  | Envelope "transaction list" int pagination
  | RowsTotal "transaction list" int
  | BucketRows "bucket_row list"
  | Row transaction

text \<open>What a request leads to: the response (status, the headers the handler sets, the
  body) and the statements handed to \<^verbatim>\<open>pool.query\<close> on the way, in order.\<close>

record outcome =
  status :: nat
  headers :: "(string \<times> jsnum) list"
  body :: body
  queries :: "sql list"

text \<open>The middleware \<^verbatim>\<open>validateRequest\<close>: with errors it answers 400 itself; only
  without any does it call \<^verbatim>\<open>next()\<close>, the handler.\<close>

definition validateRequest :: "chain list \<Rightarrow> query \<Rightarrow> outcome \<Rightarrow> outcome" where
  "validateRequest cs q next_handler =
     (let errors = validationResult cs q in
      if errors \<noteq> [] then
        \<lparr>status = 400, headers = [], body = ValidationFailed errors, queries = []\<rparr>
      else next_handler)"

text \<open>The application's error handler, which \<^verbatim>\<open>next(error)\<close> reaches:
  \<^verbatim>\<open>err.status || 500\<close>, \<^verbatim>\<open>err.message || 'Internal Server Error'\<close>,
  \<^verbatim>\<open>err.code || 'unknown error'\<close>. An error of the data store has no \<^verbatim>\<open>status\<close>.\<close>

definition error_handler :: "db_error \<Rightarrow> sql list \<Rightarrow> outcome" where
  "error_handler err issued =
     \<lparr>status = 500, headers = [],
      body = MessageCode (if message err = [] then ''Internal Server Error'' else message err)
                         (if code err = [] then ''unknown error'' else code err),
      queries = issued\<rparr>"

section \<open>The routes\<close>

definition VALID_TIME_INTERVALS :: "string list" where
  "VALID_TIME_INTERVALS =
     [''1 minute'', ''5 minutes'', ''10 minutes'', ''15 minutes'', ''30 minutes'',
      ''1 hour'', ''2 hours'', ''6 hours'', ''12 hours'',
      ''1 day'', ''1 week'', ''1 month'']"

text \<open>\<^verbatim>\<open>xs.join(sep)\<close>.\<close>

fun join :: "string \<Rightarrow> string list \<Rightarrow> string" where
  "join sep [] = []"
| "join sep [x] = x"
| "join sep (x # y # ys) = x @ sep @ join sep (y # ys)"

definition limit_chain :: chain where
  "limit_chain =
     \<lparr>field = ''limit'', optional = True,
      checks = [(isInt (Some 1) (Some 100), ''Invalid value'')]\<rparr>"

definition offset_chain :: chain where
  "offset_chain =
     \<lparr>field = ''offset'', optional = True,
      checks = [(isInt (Some 0) None, ''Invalid value'')]\<rparr>"

subsection \<open>\<^verbatim>\<open>GET /api/transactions\<close>\<close>

definition list_chains :: "chain list" where
  "list_chains = [limit_chain, offset_chain]"

definition list_handler :: "calendar \<Rightarrow> database \<Rightarrow> query \<Rightarrow> outcome" where
  "list_handler cal db q =
     (let limit = or_default (toInt (q ''limit'')) 25;
          offset = or_default (toInt (q ''offset'')) 0;
          transactionsQuery = SelectPage limit offset;
          countQuery = CountAll;
          issued = [RowQ transactionsQuery, CountQ countQuery]
      in case select_rows cal db transactionsQuery of
           Inl err \<Rightarrow> error_handler err issued
         | Inr rows \<Rightarrow>
             (case select_count cal db countQuery of
                Inl err \<Rightarrow> error_handler err issued
              | Inr totalCount \<Rightarrow>
                  (let totalPages = js_ceil (js_div totalCount limit) in
                   \<lparr>status = 200,
                    headers =
                      [(''X-Total-Count'', Fin (of_int totalCount)),
                       (''X-Total-Pages'', totalPages),
                       (''X-Current-Page'', js_plus (js_div offset limit) 1),
                       (''X-Per-Page'', Fin (of_int limit))],
                    body =
                      Envelope rows totalCount
                        \<lparr>limit = limit, offset = offset,
                         currentPage = js_plus (js_floor (js_div offset limit)) 1,
                         totalPages = totalPages\<rparr>,
                    queries = issued\<rparr>)))"

definition list_route :: "calendar \<Rightarrow> database \<Rightarrow> query \<Rightarrow> outcome" where
  "list_route cal db q = validateRequest list_chains q (list_handler cal db q)"

subsection \<open>\<^verbatim>\<open>GET /api/transactions/range\<close>\<close>

definition range_chains :: "calendar \<Rightarrow> chain list" where
  "range_chains cal =
     [\<lparr>field = ''start'', optional = False,
       checks = [(isDate cal, ''Valid start date is required'')]\<rparr>,
      \<lparr>field = ''end'', optional = False,
       checks = [(isDate cal, ''Valid end date is required'')]\<rparr>,
      limit_chain, offset_chain]"

text \<open>\<^verbatim>\<open>new Date(a) < new Date(b)\<close>: a comparison with an invalid date is false.\<close>

definition date_before :: "calendar \<Rightarrow> string option \<Rightarrow> string option \<Rightarrow> bool" where
  "date_before cal a b =
     (case (Option.bind a cal, Option.bind b cal) of
        (Some da, Some db) \<Rightarrow> da < db
      | _ \<Rightarrow> False)"

definition range_handler :: "calendar \<Rightarrow> database \<Rightarrow> query \<Rightarrow> outcome" where
  "range_handler cal db q =
     (let limit = or_default (toInt (q ''limit'')) 25;
          offset = or_default (toInt (q ''offset'')) 0;
          startDate = q ''start'';
          endDate = q ''end''
      in if date_before cal endDate startDate then
           \<lparr>status = 400, headers = [],
            body = ErrorMessage ''Invalid date range'' ''End date cannot be before start date'',
            queries = []\<rparr>
         else
           (let transactionsQuery = SelectRange startDate endDate limit offset;
                countQuery = CountRange startDate endDate;
                issued = [RowQ transactionsQuery, CountQ countQuery]
            in case select_rows cal db transactionsQuery of
                 Inl err \<Rightarrow> error_handler err issued
               | Inr rows \<Rightarrow>
                   (case select_count cal db countQuery of
                      Inl err \<Rightarrow> error_handler err issued
                    | Inr totalCount \<Rightarrow>
                        (let totalPages = js_ceil (js_div totalCount limit) in
                         \<lparr>status = 200,
                          headers =
                            [(''X-Total-Count'', Fin (of_int totalCount)),
                             (''X-Total-Pages'', totalPages),
                             (''X-Current-Page'', js_plus (js_floor (js_div offset limit)) 1)],
                          body =
                            Envelope rows totalCount
                              \<lparr>limit = limit, offset = offset,
                               currentPage = js_plus (js_floor (js_div offset limit)) 1,
                               totalPages = totalPages\<rparr>,
                          queries = issued\<rparr>))))"

definition range_route :: "calendar \<Rightarrow> database \<Rightarrow> query \<Rightarrow> outcome" where
  "range_route cal db q = validateRequest (range_chains cal) q (range_handler cal db q)"

subsection \<open>\<^verbatim>\<open>GET /api/transactions/by-time\<close>\<close>

definition interval_message :: string where
  "interval_message = ''Interval must be one of: '' @ join '', '' VALID_TIME_INTERVALS"

definition by_time_chains :: "chain list" where
  "by_time_chains =
     [\<lparr>field = ''interval'', optional = False,
       checks = [(isIn VALID_TIME_INTERVALS, interval_message)]\<rparr>,
      limit_chain]"

definition by_time_handler :: "database \<Rightarrow> query \<Rightarrow> outcome" where
  "by_time_handler db q =
     (let interval = q ''interval'';
          limit = or_default (toInt (q ''limit'')) 30;
          issued = [BucketQ interval limit]
      in case select_buckets db interval limit of
           Inl err \<Rightarrow> error_handler err issued
         | Inr rows \<Rightarrow> \<lparr>status = 200, headers = [], body = BucketRows rows, queries = issued\<rparr>)"

definition by_time_route :: "database \<Rightarrow> query \<Rightarrow> outcome" where
  "by_time_route db q = validateRequest by_time_chains q (by_time_handler db q)"

subsection \<open>\<^verbatim>\<open>GET /api/transactions/search\<close>\<close>

definition search_chains :: "chain list" where
  "search_chains =
     [\<lparr>field = ''term'', optional = False,
       checks = [(isString, ''Invalid value''),
                 (isLength 3, ''Search term must be at least 3 characters'')]\<rparr>,
      limit_chain]"

text \<open>The template literal \<^verbatim>\<open>`%${searchTerm}%`\<close>.\<close>

definition search_pattern :: "string option \<Rightarrow> string" where
  "search_pattern searchTerm =
     ''%'' @ (case searchTerm of None \<Rightarrow> ''undefined'' | Some s \<Rightarrow> s) @ ''%''"

definition search_handler :: "calendar \<Rightarrow> database \<Rightarrow> query \<Rightarrow> outcome" where
  "search_handler cal db q =
     (let searchTerm = q ''term'';
          limit = or_default (toInt (q ''limit'')) 25;
          transactionsQuery = SelectSearch (search_pattern searchTerm) limit;
          countQuery = CountSearch (search_pattern searchTerm);
          issued = [RowQ transactionsQuery, CountQ countQuery]
      in case select_rows cal db transactionsQuery of
           Inl err \<Rightarrow> error_handler err issued
         | Inr rows \<Rightarrow>
             (case select_count cal db countQuery of
                Inl err \<Rightarrow> error_handler err issued
              | Inr totalCount \<Rightarrow>
                  \<lparr>status = 200, headers = [], body = RowsTotal rows totalCount,
                   queries = issued\<rparr>))"

definition search_route :: "calendar \<Rightarrow> database \<Rightarrow> query \<Rightarrow> outcome" where
  "search_route cal db q = validateRequest search_chains q (search_handler cal db q)"

subsection \<open>\<^verbatim>\<open>GET /api/transaction/:hash\<close>\<close>

text \<open>This route catches the store's error itself and answers 500 with its own body.\<close>

definition transaction_by_hash :: "calendar \<Rightarrow> database \<Rightarrow> string \<Rightarrow> outcome" where
  "transaction_by_hash cal db h =
     (let query = SelectByHash h in
      case select_rows cal db query of
        Inl err \<Rightarrow>
          \<lparr>status = 500, headers = [],
           body = ErrorMessage ''Transaction lookup error'' (message err),
           queries = [RowQ query]\<rparr>
      | Inr rows \<Rightarrow>
          (case rows of
             [] \<Rightarrow>
               \<lparr>status = 404, headers = [], body = ErrorOnly ''Transaction not found'',
                queries = [RowQ query]\<rparr>
           | r # _ \<Rightarrow> \<lparr>status = 200, headers = [], body = Row r, queries = [RowQ query]\<rparr>))"

section \<open>The client: \<^verbatim>\<open>TransactionService\<close>\<close>

text \<open>A JSON value, as \<^verbatim>\<open>response.json()\<close> returns it.\<close>

datatype json =
    JNull
  | JBool bool
  | JNum int
  | JStr string
  | JArr "json list"
  | JObj "(string \<times> json) list"

datatype js_error = Error string | TypeError string | SyntaxError string

text \<open>What the client reads of a \<^verbatim>\<open>Response\<close>: its status, its \<^verbatim>\<open>content-type\<close> header
  (\<^verbatim>\<open>null\<close> when absent) and its body as JSON (\<open>None\<close> when the body does not parse, so
  that \<^verbatim>\<open>response.json()\<close> rejects).\<close>

record http_response =
  resp_status :: nat
  content_type :: "string option"
  json_body :: "json option"

definition ok :: "http_response \<Rightarrow> bool" where
  "ok r = (200 \<le> resp_status r \<and> resp_status r \<le> 299)"

text \<open>The decimal digits of a number, as \<^verbatim>\<open>`${n}`\<close> writes them.\<close>

definition digit_char :: "nat \<Rightarrow> char" where
  "digit_char d = ''0123456789'' ! (d mod 10)"

fun string_of_nat :: "nat \<Rightarrow> string" where
  "string_of_nat n =
     (if 10 \<le> n then string_of_nat (n div 10) @ [digit_char n] else [digit_char n])"

declare string_of_nat.simps [simp del]

definition string_of_int :: "int \<Rightarrow> string" where
  "string_of_int i = (if i < 0 then CHR ''-'' # string_of_nat (nat (- i)) else string_of_nat (nat i))"

text \<open>\<^verbatim>\<open>String(v)\<close>, which \<^verbatim>\<open>new Error(v)\<close> applies to its argument.\<close>

fun js_to_string :: "json \<Rightarrow> string" where
  "js_to_string JNull = ''null''"
| "js_to_string (JBool b) = (if b then ''true'' else ''false'')"
| "js_to_string (JNum n) = string_of_int n"
| "js_to_string (JStr s) = s"
| "js_to_string (JArr xs) =
     join '','' (map (\<lambda>x. if x = JNull then [] else js_to_string x) xs)"
| "js_to_string (JObj kvs) = ''[object Object]''"

text \<open>Truthiness of a property value; \<open>None\<close> is \<^verbatim>\<open>undefined\<close>.\<close>

fun truthy :: "json option \<Rightarrow> bool" where
  "truthy None = False"
| "truthy (Some JNull) = False"
| "truthy (Some (JBool b)) = b"
| "truthy (Some (JNum n)) = (n \<noteq> 0)"
| "truthy (Some (JStr s)) = (s \<noteq> [])"
| "truthy (Some (JArr xs)) = True"
| "truthy (Some (JObj kvs)) = True"

text \<open>\<^verbatim>\<open>v.key\<close>: a \<^verbatim>\<open>TypeError\<close> on \<^verbatim>\<open>null\<close>, the member of an object (the last one
  when a key is repeated), \<^verbatim>\<open>undefined\<close> otherwise.\<close>

fun get_prop :: "json \<Rightarrow> string \<Rightarrow> js_error + json option" where
  "get_prop JNull k = Inl (TypeError (''Cannot read properties of null (reading '' @ k @ '')''))"
| "get_prop (JObj kvs) k = Inr (map_of (rev kvs) k)"
| "get_prop v k = Inr None"

text \<open>\<^verbatim>\<open>s.includes(t)\<close>.\<close>

fun includes_str :: "string \<Rightarrow> string \<Rightarrow> bool" where
  "includes_str [] t = (t = [])"
| "includes_str (c # cs) t = (prefix t (c # cs) \<or> includes_str cs t)"

definition api_error :: "http_response \<Rightarrow> json" where
  "api_error response = JStr (''API error: '' @ string_of_nat (resp_status response))"

text \<open>\<^verbatim>\<open>v || d\<close> for a property value \<open>v\<close>.\<close>

definition js_or :: "json option \<Rightarrow> json \<Rightarrow> json" where
  "js_or v d = (case v of None \<Rightarrow> d | Some j \<Rightarrow> if truthy v then j else d)"

text \<open>Whatever is thrown inside the \<^verbatim>\<open>try\<close> (the body is not JSON, the body is
  \<^verbatim>\<open>null\<close>) ends in the \<^verbatim>\<open>catch\<close>, which returns the generic message.\<close>

definition handleErrorResponse :: "http_response \<Rightarrow> json" where
  "handleErrorResponse response =
     (case content_type response of
        None \<Rightarrow> api_error response
      | Some contentType \<Rightarrow>
          if contentType \<noteq> [] \<and> includes_str contentType ''application/json'' then
            (case json_body response of
               None \<Rightarrow> api_error response
             | Some errorData \<Rightarrow>
                 (case get_prop errorData ''message'' of
                    Inl e \<Rightarrow> api_error response
                  | Inr m \<Rightarrow>
                      (case get_prop errorData ''error'' of
                         Inl e \<Rightarrow> api_error response
                       | Inr e \<Rightarrow> js_or m (js_or e (api_error response)))))
          else api_error response)"

text \<open>
  The members of the class that take a \<^verbatim>\<open>Response\<close>. The class declares
  \<^verbatim>\<open>getTransactions\<close>, \<^verbatim>\<open>getTransactionsByDateRange\<close>, \<^verbatim>\<open>searchTransactions\<close>,
  \<^verbatim>\<open>getTransactionsByTime\<close> and \<^verbatim>\<open>handleErrorResponse\<close>, and nothing else; calling
  \<^verbatim>\<open>this.name(response)\<close> for a name that is not a member throws a \<^verbatim>\<open>TypeError\<close>.
\<close>

definition response_method :: "string \<Rightarrow> (http_response \<Rightarrow> json) option" where
  "response_method name =
     (if name = ''handleErrorResponse'' then Some handleErrorResponse else None)"

definition call_this :: "string \<Rightarrow> http_response \<Rightarrow> js_error + json" where
  "call_this name response =
     (case response_method name of
        None \<Rightarrow> Inl (TypeError (''this.'' @ name @ '' is not a function''))
      | Some f \<Rightarrow> Inr (f response))"

text \<open>\<^verbatim>\<open>encodeURIComponent\<close>: letters, digits and \<^verbatim>\<open>- _ . ! ~ * ' ( )\<close> stay; every
  other character becomes \<^verbatim>\<open>%XX\<close> for each byte of its UTF-8 encoding (one byte below
  128, two bytes for the other characters of the type \<open>char\<close>).\<close>

definition unreserved :: "char \<Rightarrow> bool" where
  "unreserved c =
     (c \<in> set ''ABCDEFGHIJKLMNOPQRSTUVWXYZabcdefghijklmnopqrstuvwxyz0123456789-_.!~*()''
      \<or> c = CHR 0x27)"

definition utf8 :: "char \<Rightarrow> nat list" where
  "utf8 c = (if of_char c < (128::nat) then [of_char c]
             else [192 + of_char c div 64, 128 + of_char c mod 64])"

definition hex_digit :: "nat \<Rightarrow> char" where
  "hex_digit n = ''0123456789ABCDEF'' ! (n mod 16)"

definition percent :: "nat \<Rightarrow> string" where
  "percent b = [CHR ''%'', hex_digit (b div 16), hex_digit (b mod 16)]"

definition encodeURIComponent :: "string \<Rightarrow> string" where
  "encodeURIComponent s =
     concat (map (\<lambda>c. if unreserved c then [c] else concat (map percent (utf8 c))) s)"

text \<open>A default parameter value: \<^verbatim>\<open>undefined\<close> (an argument left out) takes the default.\<close>

definition default_arg :: "'a option \<Rightarrow> 'a \<Rightarrow> 'a" where
  "default_arg a d = (case a of None \<Rightarrow> d | Some v \<Rightarrow> v)"

text \<open>
  A call of a data-access method: the URLs it hands to \<^verbatim>\<open>fetch\<close> and what it returns
  or throws. \<^verbatim>\<open>fetch\<close> is a parameter; \<open>Inl\<close> is a rejected request. The four
  methods have one body, \<open>respond\<close>, and differ in the URL and in the name of the member
  they call on a non-success response: \<^verbatim>\<open>throw new Error(await this.name(response))\<close>.
  Every method logs and rethrows what it catches.
\<close>

record call =
  requests :: "string list"
  result :: "js_error + json"

definition respond ::
  "string \<Rightarrow> (string \<Rightarrow> js_error + http_response) \<Rightarrow> string \<Rightarrow> call" where
  "respond handler fetch url =
     \<lparr>requests = [url],
      result =
        (case fetch url of
           Inl e \<Rightarrow> Inl e
         | Inr response \<Rightarrow>
             if \<not> ok response then
               (case call_this handler response of
                  Inl e \<Rightarrow> Inl e
                | Inr v \<Rightarrow> Inl (Error (js_to_string v)))
             else
               (case json_body response of
                  None \<Rightarrow> Inl (SyntaxError ''Unexpected token'')
                | Some v \<Rightarrow> Inr v))\<rparr>"

definition getTransactions ::
  "(string \<Rightarrow> js_error + http_response) \<Rightarrow> int option \<Rightarrow> int option \<Rightarrow> call" where
  "getTransactions fetch limit_arg offset_arg =
     respond ''handleResponseError'' fetch
       (''/api/transactions?limit='' @ string_of_int (default_arg limit_arg 25)
        @ ''&offset='' @ string_of_int (default_arg offset_arg 0))"

definition getTransactionsByDateRange ::
  "(string \<Rightarrow> js_error + http_response) \<Rightarrow> string \<Rightarrow> string \<Rightarrow> int option \<Rightarrow> int option \<Rightarrow> call"
where
  "getTransactionsByDateRange fetch startDate endDate limit_arg offset_arg =
     respond ''handleResponseError'' fetch
       (''/api/transactions-range?start='' @ encodeURIComponent startDate
        @ ''&end='' @ encodeURIComponent endDate
        @ ''&limit='' @ string_of_int (default_arg limit_arg 25)
        @ ''&offset='' @ string_of_int (default_arg offset_arg 0))"

definition searchTransactions ::
  "(string \<Rightarrow> js_error + http_response) \<Rightarrow> string \<Rightarrow> int option \<Rightarrow> int option \<Rightarrow> call" where
  "searchTransactions fetch term limit_arg offset_arg =
     respond ''handleErrorResponse'' fetch
       (''/api/transactions/search?term='' @ encodeURIComponent term
        @ ''&limit='' @ string_of_int (default_arg limit_arg 25))"

definition getTransactionsByTime ::
  "(string \<Rightarrow> js_error + http_response) \<Rightarrow> string option \<Rightarrow> int option \<Rightarrow> call" where
  "getTransactionsByTime fetch interval limit_arg =
     respond ''handleErrorResponse'' fetch
       (''/api/transactions/by-time?interval='' @ encodeURIComponent (default_arg interval ''1 day'')
        @ ''&limit='' @ string_of_int (default_arg limit_arg 50))"

section \<open>Notions the properties are stated with\<close>

text \<open>The \<^verbatim>\<open>pagination\<close> member of a body, if it has one.\<close>

fun pagination_block :: "body \<Rightarrow> pagination option" where
  "pagination_block (Envelope rows n p) = Some p"
| "pagination_block b = None"

text \<open>A parameter fails validation: its chain runs (the parameter is required, or
  present) and one of the chain's validators rejects the value.\<close>

definition fails :: "query \<Rightarrow> chain \<Rightarrow> bool" where
  "fails q c =
     (\<not> (optional c \<and> q (field c) = None) \<and> list_ex (\<lambda>(p, m). \<not> p (q (field c))) (checks c))"

text \<open>A character that stands for itself in a \<^verbatim>\<open>LIKE\<close> pattern.\<close>

definition plain :: "char \<Rightarrow> bool" where
  "plain c = (c \<noteq> CHR ''%'' \<and> c \<noteq> CHR ''_'' \<and> c \<noteq> CHR 0x5C)"

section \<open>Sample data\<close>

definition sample_tx :: "string \<Rightarrow> int \<Rightarrow> transaction" where
  "sample_tx h t =
     \<lparr>hash = h, block_id = 0, time = t, output_total = 0, output_total_usd = 0, fee = 0,
      size_bytes = 0\<rparr>"

text \<open>A store of five transactions, and a calendar that reads two dates.\<close>

definition sample_db :: database where
  "sample_db =
     \<lparr>transactions =
        [sample_tx ''abc'' 10, sample_tx ''b0b'' 50, sample_tx ''cafe'' 30,
         sample_tx ''dead'' 90000, sample_tx ''beef'' 40],
      time_bucket = (\<lambda>i t. t),
      failure = None\<rparr>"

definition sample_cal :: calendar where
  "sample_cal s =
     (if s = ''1970-01-01'' then Some 0 else if s = ''1970-01-02'' then Some 1 else None)"

text \<open>The answer of the server to a request that fails validation, as the client
  receives it, and a \<^verbatim>\<open>fetch\<close> that always gets that answer.\<close>

definition sample_error_response :: http_response where
  "sample_error_response =
     \<lparr>resp_status = 400,
      content_type = Some ''application/json; charset=utf-8'',
      json_body = Some (JObj [(''error'', JStr ''Validation failed''), (''details'', JArr [])])\<rparr>"

definition sample_fetch :: "string \<Rightarrow> js_error + http_response" where
  "sample_fetch url = Inr sample_error_response"

section \<open>Auxiliary facts\<close>

lemma limit_chain_ok:
  "run_chain q limit_chain = [] \<longleftrightarrow>
     (q ''limit'' = None \<or> isInt (Some 1) (Some 100) (q ''limit''))"
  by (auto simp: run_chain_def limit_chain_def)

lemma offset_chain_ok:
  "run_chain q offset_chain = [] \<longleftrightarrow>
     (q ''offset'' = None \<or> isInt (Some 0) None (q ''offset''))"
  by (auto simp: run_chain_def offset_chain_def)

lemma js_floor_div:
  "b \<noteq> 0 \<Longrightarrow> js_floor (js_div a b) = Fin (of_int (a div b))"
  by (simp add: js_div_def floor_divide_of_int_eq)

lemma js_ceil_div:
  "b \<noteq> 0 \<Longrightarrow> js_ceil (js_div a b) = Fin (of_int (- ((- a) div b)))"
  by (simp add: js_div_def ceiling_divide_eq_div)

lemma length_limit_offset:
  "limit_offset l off xs = Inr ys \<Longrightarrow> int (length ys) \<le> l"
  by (auto simp: limit_offset_def split: if_splits)

lemma parseInt_samples:
  "parseInt ''0'' = 0" "parseInt ''1'' = 1" "parseInt ''2'' = 2"
  by (simp_all add: parseInt_def digits_value_def digit_value_def)

lemma int_regex_samples:
  "int_regex ''0''" "int_regex ''1''" "int_regex ''2''"
  by (simp_all add: int_regex_def is_digit_def)

lemma sample_sorted:
  "order_by_time_desc (transactions sample_db) =
     [sample_tx ''dead'' 90000, sample_tx ''b0b'' 50, sample_tx ''beef'' 40,
      sample_tx ''cafe'' 30, sample_tx ''abc'' 10]"
  by (simp add: order_by_time_desc_def sample_db_def sample_tx_def)

lemma sample_up: "failure sample_db = None" "length (transactions sample_db) = 5"
  by (simp_all add: sample_db_def)

lemma parseInt_more: "parseInt ''-1'' = - 1" "parseInt ''101'' = 101"
  by (simp_all add: parseInt_def digits_value_def digit_value_def)

lemma chain_fields:
  "field limit_chain = ''limit''" "field offset_chain = ''offset''"
  by (simp_all add: limit_chain_def offset_chain_def)

lemma fails_limit:
  "fails q limit_chain \<longleftrightarrow>
     q ''limit'' \<noteq> None \<and> \<not> isInt (Some 1) (Some 100) (q ''limit'')"
  by (auto simp: fails_def limit_chain_def)

lemma fails_offset:
  "fails q offset_chain \<longleftrightarrow> q ''offset'' \<noteq> None \<and> \<not> isInt (Some 0) None (q ''offset'')"
  by (auto simp: fails_def offset_chain_def)

lemma paths_of_errors:
  "path ` set (map (\<lambda>(p, m). \<lparr>err_value = v, msg = m, path = f\<rparr>) xs) =
     (if xs = [] then {} else {f})"
  by (induction xs) (auto split: prod.splits)

lemma run_chain_paths: "path ` set (run_chain q c) = (if fails q c then {field c} else {})"
proof (cases "optional c \<and> q (field c) = None")
  case True
  then show ?thesis
    by (simp add: run_chain_def fails_def)
next
  case False
  then have "run_chain q c =
      map (\<lambda>(p, m). \<lparr>err_value = q (field c), msg = m, path = field c\<rparr>)
        (filter (\<lambda>(p, m). \<not> p (q (field c))) (checks c))"
    by (auto simp: run_chain_def)
  then have "path ` set (run_chain q c) =
      (if filter (\<lambda>(p, m). \<not> p (q (field c))) (checks c) = [] then {} else {field c})"
    by (simp only: paths_of_errors)
  with False show ?thesis
    by (simp add: fails_def filter_empty_conv list_ex_iff)
qed

lemma validationResult_paths:
  "path ` set (validationResult cs q) = set (map field (filter (fails q) cs))"
  by (induction cs) (simp_all add: validationResult_def run_chain_paths image_Un)

lemma validation_fails:
  assumes "\<exists>c \<in> set cs. fails q c"
  shows "validateRequest cs q h =
           \<lparr>status = 400, headers = [], body = ValidationFailed (validationResult cs q),
            queries = []\<rparr>"
proof -
  have "path ` set (validationResult cs q) \<noteq> {}"
    using assms by (auto simp: validationResult_paths filter_empty_conv)
  then have "validationResult cs q \<noteq> []"
    by auto
  then show ?thesis
    by (simp add: validateRequest_def)
qed

lemma validation_fails_outcome:
  assumes "\<exists>c \<in> set cs. fails q c"
  shows "status (validateRequest cs q h) = 400 \<and> queries (validateRequest cs q h) = []
      \<and> (\<exists>details. body (validateRequest cs q h) = ValidationFailed details
            \<and> path ` set details = set (map field (filter (fails q) cs)))"
  using validation_fails [OF assms, of h] by (simp add: validationResult_paths)

lemma validateRequest_cases:
  "validateRequest cs q h = h \<or> status (validateRequest cs q h) = 400"
  by (simp add: validateRequest_def Let_def)

lemma list_sample:
  "list_route sample_cal sample_db [''limit'' \<mapsto> ''2'', ''offset'' \<mapsto> ''1''] =
      \<lparr>status = 200,
       headers =
         [(''X-Total-Count'', Fin 5), (''X-Total-Pages'', Fin 3),
          (''X-Current-Page'', Fin (3 / 2)), (''X-Per-Page'', Fin 2)],
       body =
         Envelope [sample_tx ''b0b'' 50, sample_tx ''beef'' 40] 5
           \<lparr>limit = 2, offset = 1, currentPage = Fin 1, totalPages = Fin 3\<rparr>,
       queries = [RowQ (SelectPage 2 1), CountQ CountAll]\<rparr>"
proof -
  have v: "validationResult list_chains [''limit'' \<mapsto> ''2'', ''offset'' \<mapsto> ''1''] = []"
    by (simp add: validationResult_def list_chains_def limit_chain_ok offset_chain_ok isInt_def
        toString_def parseInt_samples int_regex_samples)
  show ?thesis
    by (simp add: list_route_def validateRequest_def v list_handler_def
        or_default_def toInt_def parseInt_samples select_rows_def select_count_def sample_up
        limit_offset_def sample_sorted js_floor_div js_ceil_div Let_def)
      (simp add: js_div_def)
qed

lemma lower_samples:
  "lower ''%bee%'' = ''%bee%''" "lower ''%a_c%'' = ''%a_c%''"
  "lower ''abc'' = ''abc''" "lower ''b0b'' = ''b0b''" "lower ''cafe'' = ''cafe''"
  "lower ''dead'' = ''dead''" "lower ''beef'' = ''beef''"
  by (simp_all add: lower_def lower_char_def)

lemma search_valid_sample:
  "validationResult search_chains [''term'' \<mapsto> ''bee''] = []"
  "validationResult search_chains [''term'' \<mapsto> ''a_c''] = []"
  by (simp_all add: validationResult_def search_chains_def run_chain_def limit_chain_def
      isString_def isLength_def toString_def)

lemma ilike_bee:
  "filter (\<lambda>t. ilike (hash t) ''%bee%'') (transactions sample_db) = [sample_tx ''beef'' 40]"
  by (simp add: sample_db_def sample_tx_def ilike_def lower_samples)

lemma ilike_a_c:
  "filter (\<lambda>t. ilike (hash t) ''%a_c%'') (transactions sample_db) = [sample_tx ''abc'' 10]"
  by (simp add: sample_db_def sample_tx_def ilike_def lower_samples)

lemma search_sample:
  "search_route sample_cal sample_db [''term'' \<mapsto> ''bee''] =
     \<lparr>status = 200, headers = [], body = RowsTotal [sample_tx ''beef'' 40] 1,
      queries = [RowQ (SelectSearch ''%bee%'' 25), CountQ (CountSearch ''%bee%'')]\<rparr>"
  by (simp add: search_route_def validateRequest_def search_valid_sample search_handler_def
      or_default_def toInt_def search_pattern_def select_rows_def select_count_def
      sample_up ilike_bee limit_offset_def order_by_time_desc_def)

lemma search_sample_wild:
  "search_route sample_cal sample_db [''term'' \<mapsto> ''a_c''] =
     \<lparr>status = 200, headers = [], body = RowsTotal [sample_tx ''abc'' 10] 1,
      queries = [RowQ (SelectSearch ''%a_c%'' 25), CountQ (CountSearch ''%a_c%'')]\<rparr>"
  by (simp add: search_route_def validateRequest_def search_valid_sample search_handler_def
      or_default_def toInt_def search_pattern_def select_rows_def select_count_def
      sample_up ilike_a_c limit_offset_def order_by_time_desc_def)

lemma like_percent:
  "like_match (CHR ''%'' # r) s \<longleftrightarrow> (\<exists>a b. s = a @ b \<and> like_match r b)"
proof (induction s)
  case Nil
  then show ?case by simp
next
  case (Cons c cs)
  have "like_match (CHR ''%'' # r) (c # cs) \<longleftrightarrow>
      like_match r (c # cs) \<or> like_match (CHR ''%'' # r) cs"
    by simp
  also have "\<dots> \<longleftrightarrow> like_match r (c # cs) \<or> (\<exists>a b. cs = a @ b \<and> like_match r b)"
    using Cons.IH by simp
  also have "\<dots> \<longleftrightarrow> (\<exists>a b. c # cs = a @ b \<and> like_match r b)"
    by (auto simp: Cons_eq_append_conv)
  finally show ?case .
qed

lemma like_percent_only: "like_match ''%'' s"
  by (induction s) simp_all

lemma like_plain_prefix:
  "list_all plain p \<Longrightarrow> like_match (p @ r) s \<longleftrightarrow> (\<exists>s'. s = p @ s' \<and> like_match r s')"
proof (induction p arbitrary: s)
  case Nil
  then show ?case by simp
next
  case (Cons x p)
  from Cons.prems have x: "x \<noteq> CHR ''%''" "x \<noteq> CHR ''_''" "x \<noteq> CHR 0x5C"
    by (simp_all add: plain_def)
  from Cons.prems have p: "list_all plain p"
    by simp
  show ?case
  proof (cases s)
    case Nil
    with x show ?thesis by simp
  next
    case (Cons c cs)
    with x Cons.IH [OF p, of cs] show ?thesis by auto
  qed
qed

lemma like_contains:
  assumes "list_all plain p"
  shows "like_match (CHR ''%'' # p @ ''%'') s \<longleftrightarrow> sublist p s"
proof -
  have "like_match (CHR ''%'' # p @ ''%'') s \<longleftrightarrow>
      (\<exists>a b. s = a @ b \<and> like_match (p @ ''%'') b)"
    by (rule like_percent)
  also have "\<dots> \<longleftrightarrow> (\<exists>a b. s = a @ b \<and> (\<exists>s'. b = p @ s'))"
    by (simp add: like_plain_prefix [OF assms] like_percent_only)
  also have "\<dots> \<longleftrightarrow> sublist p s"
    by (auto simp: sublist_def)
  finally show ?thesis .
qed

lemma lower_char_plain: "plain c \<Longrightarrow> plain (lower_char c)"
proof (cases "map_of (zip ''ABCDEFGHIJKLMNOPQRSTUVWXYZ'' ''abcdefghijklmnopqrstuvwxyz'') c")
  case None
  assume "plain c"
  with None show ?thesis
    by (simp add: lower_char_def)
next
  case (Some l)
  then have "l \<in> set ''abcdefghijklmnopqrstuvwxyz''"
    by (meson map_of_SomeD set_zip_rightD)
  then have "plain l"
    by (auto simp: plain_def)
  with Some show ?thesis
    by (simp add: lower_char_def)
qed

lemma lower_plain: "list_all plain t \<Longrightarrow> list_all plain (lower t)"
  by (induction t) (simp_all add: lower_def lower_char_plain)

lemma lower_pattern: "lower (''%'' @ t @ ''%'') = CHR ''%'' # lower t @ ''%''"
  by (simp add: lower_def lower_char_def)

lemma ilike_contains:
  assumes "list_all plain t"
  shows "ilike h (search_pattern (Some t)) \<longleftrightarrow> sublist (lower t) (lower h)"
proof -
  have "ilike h (search_pattern (Some t)) = like_match (CHR ''%'' # lower t @ ''%'') (lower h)"
    by (simp only: ilike_def search_pattern_def option.case lower_pattern)
  then show ?thesis
    by (simp only: like_contains [OF lower_plain [OF assms]])
qed

lemma mset_order_by_time_desc: "mset (order_by_time_desc xs) = mset xs"
  by (simp add: order_by_time_desc_def)

lemma sorted_order_by_time_desc:
  "sorted_wrt (\<lambda>a b. time b \<le> time a) (order_by_time_desc xs)"
proof -
  have "sorted (map time (sort_key time xs))"
    by (rule sorted_sort_key)
  then have "sorted_wrt (\<lambda>a b. time a \<le> time b) (sort_key time xs)"
    by (simp add: sorted_map)
  then show ?thesis
    by (simp add: order_by_time_desc_def sorted_wrt_rev)
qed

lemma effective_limit:
  assumes "run_chain q limit_chain = []" "1 \<le> d" "d \<le> 100"
  shows "or_default (toInt (q ''limit'')) d = (case q ''limit'' of None \<Rightarrow> d | Some ls \<Rightarrow> parseInt ls)"
    and "1 \<le> or_default (toInt (q ''limit'')) d"
    and "or_default (toInt (q ''limit'')) d \<le> 100"
  using assms
  by (auto simp: limit_chain_ok or_default_def toInt_def isInt_def toString_def split: option.splits)


lemma term_chain_short:
  "length (toString (q ''term'')) < 3 \<Longrightarrow> fails q (search_chains ! 0)"
  by (simp add: search_chains_def fails_def isLength_def)

lemma term_chain_ok:
  "q ''term'' = Some t \<Longrightarrow> 3 \<le> length t \<Longrightarrow> run_chain q (search_chains ! 0) = []"
  by (simp add: search_chains_def run_chain_def isLength_def isString_def toString_def)

lemma run_chain_required:
  "run_chain q \<lparr>field = f, optional = False, checks = [(p, m)]\<rparr> =
     (if p (q f) then [] else [\<lparr>err_value = q f, msg = m, path = f\<rparr>])"
  by (simp add: run_chain_def)

lemma range_validation:
  "validationResult (range_chains cal) q = [] \<longleftrightarrow>
     isDate cal (q ''start'') \<and> isDate cal (q ''end'')
     \<and> run_chain q limit_chain = [] \<and> run_chain q offset_chain = []"
  by (simp add: validationResult_def range_chains_def run_chain_required)

lemma range_valid_sample:
  "validationResult (range_chains sample_cal)
     [''start'' \<mapsto> ''1970-01-01'', ''end'' \<mapsto> ''1970-01-01'', ''limit'' \<mapsto> ''1''] = []"
  "validationResult (range_chains sample_cal)
     [''start'' \<mapsto> ''1970-01-02'', ''end'' \<mapsto> ''1970-01-01''] = []"
  by (simp_all add: range_validation limit_chain_ok offset_chain_ok isDate_def toString_def
      sample_cal_def isInt_def int_regex_samples parseInt_samples)

lemma sample_day0:
  "filter (in_range 0 0) (transactions sample_db) =
     [sample_tx ''abc'' 10, sample_tx ''b0b'' 50, sample_tx ''cafe'' 30, sample_tx ''beef'' 40]"
  by (simp add: sample_db_def sample_tx_def in_range_def)

lemma sample_day0_sorted:
  "order_by_time_desc
     [sample_tx ''abc'' 10, sample_tx ''b0b'' 50, sample_tx ''cafe'' 30, sample_tx ''beef'' 40] =
     [sample_tx ''b0b'' 50, sample_tx ''beef'' 40, sample_tx ''cafe'' 30, sample_tx ''abc'' 10]"
  by (simp add: order_by_time_desc_def sample_tx_def)

lemma range_sample:
  "range_route sample_cal sample_db
     [''start'' \<mapsto> ''1970-01-01'', ''end'' \<mapsto> ''1970-01-01'', ''limit'' \<mapsto> ''1''] =
     \<lparr>status = 200,
      headers = [(''X-Total-Count'', Fin 4), (''X-Total-Pages'', Fin 4), (''X-Current-Page'', Fin 1)],
      body = Envelope [sample_tx ''b0b'' 50] 4
               \<lparr>limit = 1, offset = 0, currentPage = Fin 1, totalPages = Fin 4\<rparr>,
      queries = [RowQ (SelectRange (Some ''1970-01-01'') (Some ''1970-01-01'') 1 0),
                 CountQ (CountRange (Some ''1970-01-01'') (Some ''1970-01-01''))]\<rparr>"
  by (simp add: range_route_def validateRequest_def range_valid_sample range_handler_def
      date_before_def sample_cal_def or_default_def toInt_def parseInt_samples select_rows_def
      select_count_def sample_up range_rows_def sample_day0 sample_day0_sorted limit_offset_def
      js_floor_div js_ceil_div Let_def)

lemma list_handler_success:
  "status (list_handler cal db q) = 200 \<Longrightarrow>
     \<exists>rows n p. body (list_handler cal db q) = Envelope rows n p"
  by (simp add: list_handler_def error_handler_def Let_def split: sum.splits)

lemma range_handler_success:
  "status (range_handler cal db q) = 200 \<Longrightarrow>
     \<exists>rows n p. body (range_handler cal db q) = Envelope rows n p"
  by (simp add: range_handler_def error_handler_def Let_def split: sum.splits if_splits)

lemma search_handler_success:
  "status (search_handler cal db q) = 200 \<Longrightarrow>
     \<exists>rows n. body (search_handler cal db q) = RowsTotal rows n"
  by (simp add: search_handler_def error_handler_def Let_def split: sum.splits)

lemma sublist_prepend: "sublist v ys \<Longrightarrow> sublist v (ps @ ys)"
  by (metis append.assoc sublist_def)

lemma sublist_join: "v \<in> set xs \<Longrightarrow> sublist v (join sep xs)"
proof (induction sep xs rule: join.induct)
  case (1 sep)
  then show ?case by simp
next
  case (2 sep x)
  then show ?case by simp
next
  case (3 sep x y ys)
  show ?case
  proof (cases "v = x")
    case True
    then show ?thesis
      by (simp add: sublist_append_rightI)
  next
    case False
    with 3 have "sublist v (join sep (y # ys))"
      by simp
    then have "sublist v ((x @ sep) @ join sep (y # ys))"
      by (rule sublist_prepend)
    then show ?thesis
      by simp
  qed
qed

lemma interval_message_text:
  "interval_message =
     ''Interval must be one of: 1 minute, 5 minutes, 10 minutes, 15 minutes, 30 minutes, 1 hour, 2 hours, 6 hours, 12 hours, 1 day, 1 week, 1 month''"
  by (simp add: interval_message_def VALID_TIME_INTERVALS_def)

lemma interval_message_names:
  "v \<in> set VALID_TIME_INTERVALS \<Longrightarrow> sublist v interval_message"
  unfolding interval_message_def by (intro sublist_prepend sublist_join)

lemma sample_error_message:
  "handleErrorResponse sample_error_response = JStr ''Validation failed''"
  by (simp add: handleErrorResponse_def sample_error_response_def js_or_def)

lemma respond_not_ok:
  "fetch url = Inr r \<Longrightarrow> \<not> ok r \<Longrightarrow>
     result (respond h fetch url) =
       (case call_this h r of Inl e \<Rightarrow> Inl e | Inr v \<Rightarrow> Inl (Error (js_to_string v)))"
  by (simp add: respond_def)

lemma sample_not_ok: "\<not> ok sample_error_response"
  by (simp add: ok_def sample_error_response_def)

lemma search_url_sample:
  "requests (searchTransactions sample_fetch ''a_c%'' (Some 10) (Some 20)) =
     [''/api/transactions/search?term=a_c%25&limit=10'']"
  by (simp add: searchTransactions_def respond_def encodeURIComponent_def unreserved_def
      utf8_def percent_def hex_digit_def default_arg_def string_of_int_def
      string_of_nat.simps digit_char_def)

lemma digit_char_digit: "is_digit (digit_char d)" "digit_value (digit_char d) = int (d mod 10)"
proof -
  have "d mod 10 < 10" by simp
  then have d: "d mod 10 \<in> {0, 1, 2, 3, 4, 5, 6, 7, 8, 9}"
    by (simp only: insert_iff empty_iff) arith
  from d show "is_digit (digit_char d)"
    unfolding digit_char_def is_digit_def by (elim insertE emptyE) simp_all
  from d show "digit_value (digit_char d) = int (d mod 10)"
    unfolding digit_char_def digit_value_def by (elim insertE emptyE) simp_all
qed

lemma digits_value_snoc: "digits_value (xs @ [c]) = 10 * digits_value xs + digit_value c"
  by (simp add: digits_value_def)

lemma string_of_nat_digits:
  "list_all is_digit (string_of_nat n) \<and> string_of_nat n \<noteq> []
   \<and> digits_value (string_of_nat n) = int n"
proof (induction n rule: string_of_nat.induct)
  case (1 n)
  show ?case
  proof (cases "10 \<le> n")
    case True
    with 1 have ih: "list_all is_digit (string_of_nat (n div 10))"
      "digits_value (string_of_nat (n div 10)) = int (n div 10)"
      by simp_all
    have s: "string_of_nat n = string_of_nat (n div 10) @ [digit_char n]"
      using True by (subst string_of_nat.simps) simp
    show ?thesis
      unfolding s using ih
      by (simp add: digits_value_snoc digit_char_digit zdiv_int zmod_int)
  next
    case False
    have s: "string_of_nat n = [digit_char n]"
      using False by (subst string_of_nat.simps) simp
    show ?thesis
      unfolding s using False
      by (simp add: digit_char_digit digits_value_def)
  qed
qed

lemma digit_not_sign: "is_digit c \<Longrightarrow> c \<noteq> CHR ''-'' \<and> c \<noteq> CHR ''+''"
  by (auto simp: is_digit_def)

lemma parseInt_string_of_int:
  assumes "0 \<le> n"
  shows "int_regex (string_of_int n)" and "parseInt (string_of_int n) = n"
proof -
  from string_of_nat_digits [of "nat n"]
  obtain c cs where s: "string_of_nat (nat n) = c # cs" and d: "list_all is_digit (c # cs)"
    and v: "digits_value (c # cs) = n"
    using assms by (cases "string_of_nat (nat n)") auto
  from d have "is_digit c" by simp
  then have ns: "c \<noteq> CHR ''-''" "c \<noteq> CHR ''+''"
    using digit_not_sign by blast+
  show "int_regex (string_of_int n)"
    using assms s d ns by (simp add: string_of_int_def int_regex_def)
  show "parseInt (string_of_int n) = n"
    using assms s v ns by (simp add: string_of_int_def parseInt_def)
qed

lemma isInt_string_of_int:
  "1 \<le> n \<Longrightarrow> n \<le> 100 \<Longrightarrow> isInt (Some 1) (Some 100) (Some (string_of_int n))"
  "0 \<le> n \<Longrightarrow> isInt (Some 0) None (Some (string_of_int n))"
  by (simp_all add: isInt_def toString_def parseInt_string_of_int)

lemma range_handler_headers:
  "status (range_handler cal db q) = 200 \<Longrightarrow>
     \<exists>rows n p. body (range_handler cal db q) = Envelope rows n p
       \<and> map_of (headers (range_handler cal db q)) ''X-Total-Count'' = Some (Fin (of_int n))
       \<and> map_of (headers (range_handler cal db q)) ''X-Total-Pages'' = Some (totalPages p)
       \<and> map_of (headers (range_handler cal db q)) ''X-Current-Page'' = Some (currentPage p)"
  by (simp add: range_handler_def error_handler_def Let_def split: sum.splits if_splits)

lemma range_headers_mirror_body:
  assumes "status (range_route cal db q) = 200"
  shows "\<exists>rows n p. body (range_route cal db q) = Envelope rows n p
       \<and> map_of (headers (range_route cal db q)) ''X-Total-Count'' = Some (Fin (of_int n))
       \<and> map_of (headers (range_route cal db q)) ''X-Total-Pages'' = Some (totalPages p)
       \<and> map_of (headers (range_route cal db q)) ''X-Current-Page'' = Some (currentPage p)"
  using assms validateRequest_cases [of "range_chains cal" q "range_handler cal db q"]
    range_handler_headers [of cal db q]
  unfolding range_route_def by auto

lemma list_handler_headers:
  "status (list_handler cal db q) = 200 \<Longrightarrow>
     \<exists>rows n p. body (list_handler cal db q) = Envelope rows n p
       \<and> map_of (headers (list_handler cal db q)) ''X-Total-Count'' = Some (Fin (of_int n))
       \<and> map_of (headers (list_handler cal db q)) ''X-Total-Pages'' = Some (totalPages p)
       \<and> map_of (headers (list_handler cal db q)) ''X-Current-Page'' =
           Some (js_plus (js_div (offset p) (limit p)) 1)
       \<and> currentPage p = js_plus (js_floor (js_div (offset p) (limit p))) 1"
  by (simp add: list_handler_def error_handler_def Let_def split: sum.splits if_splits)

lemma list_headers_and_body:
  assumes "status (list_route cal db q) = 200"
  shows "\<exists>rows n p. body (list_route cal db q) = Envelope rows n p
       \<and> map_of (headers (list_route cal db q)) ''X-Total-Count'' = Some (Fin (of_int n))
       \<and> map_of (headers (list_route cal db q)) ''X-Total-Pages'' = Some (totalPages p)
       \<and> map_of (headers (list_route cal db q)) ''X-Current-Page'' =
           Some (js_plus (js_div (offset p) (limit p)) 1)
       \<and> currentPage p = js_plus (js_floor (js_div (offset p) (limit p))) 1"
  using assms validateRequest_cases [of list_chains q "list_handler cal db q"]
    list_handler_headers [of cal db q]
  unfolding list_route_def by auto

section \<open>The list route\<close>



text \<open>
  C2. The headers of the list route carry the values of the body. This fails for
  \<^verbatim>\<open>X-Current-Page\<close>: the header is \<^verbatim>\<open>offset / limit + 1\<close> without
  \<^verbatim>\<open>Math.floor\<close>, which the body applies (\<open>list_headers_and_body\<close>) and which the range
  route applies to header and body alike (\<open>range_headers_mirror_body\<close>). For \<open>limit=2\<close>,
  \<open>offset=1\<close> the header is \<open>3/2\<close> while the body's \<open>currentPage\<close> is \<open>1\<close>.
\<close>

theorem list_header_current_page_fractional:
  "map_of (headers (list_route sample_cal sample_db [''limit'' \<mapsto> ''2'', ''offset'' \<mapsto> ''1'']))
      ''X-Current-Page'' = Some (Fin (3 / 2))
   \<and> body (list_route sample_cal sample_db [''limit'' \<mapsto> ''2'', ''offset'' \<mapsto> ''1'']) =
       Envelope [sample_tx ''b0b'' 50, sample_tx ''beef'' 40] 5
         \<lparr>limit = 2, offset = 1, currentPage = Fin 1, totalPages = Fin 3\<rparr>"
  by (simp add: list_sample)

section \<open>Validation comes first\<close>

text \<open>
  C9. On each of the four validated routes (list, range, by-time, search), if some
  parameter fails validation then the answer is 400, no statement reaches the data
  store, and the \<open>details\<close> of the one response name every failing field, not only the
  first.
\<close>

theorem validation_precedes_queries:
  "((\<exists>c \<in> set list_chains. fails q c) \<longrightarrow>
      status (list_route cal db q) = 400 \<and> queries (list_route cal db q) = []
      \<and> (\<exists>details. body (list_route cal db q) = ValidationFailed details
            \<and> path ` set details = set (map field (filter (fails q) list_chains))))
   \<and> ((\<exists>c \<in> set (range_chains cal). fails q c) \<longrightarrow>
      status (range_route cal db q) = 400 \<and> queries (range_route cal db q) = []
      \<and> (\<exists>details. body (range_route cal db q) = ValidationFailed details
            \<and> path ` set details = set (map field (filter (fails q) (range_chains cal)))))
   \<and> ((\<exists>c \<in> set by_time_chains. fails q c) \<longrightarrow>
      status (by_time_route db q) = 400 \<and> queries (by_time_route db q) = []
      \<and> (\<exists>details. body (by_time_route db q) = ValidationFailed details
            \<and> path ` set details = set (map field (filter (fails q) by_time_chains))))
   \<and> ((\<exists>c \<in> set search_chains. fails q c) \<longrightarrow>
      status (search_route cal db q) = 400 \<and> queries (search_route cal db q) = []
      \<and> (\<exists>details. body (search_route cal db q) = ValidationFailed details
            \<and> path ` set details = set (map field (filter (fails q) search_chains))))"
  unfolding list_route_def range_route_def by_time_route_def search_route_def
  using validation_fails_outcome by blast

theorem validation_precedes_queries_witness:
  "(status (list_route sample_cal sample_db [''limit'' \<mapsto> ''0'', ''offset'' \<mapsto> ''-1'']) = 400
    \<and> queries (list_route sample_cal sample_db [''limit'' \<mapsto> ''0'', ''offset'' \<mapsto> ''-1'']) = []
    \<and> (\<exists>details. body (list_route sample_cal sample_db [''limit'' \<mapsto> ''0'', ''offset'' \<mapsto> ''-1''])
            = ValidationFailed details \<and> path ` set details = {''limit'', ''offset''}))
   \<and> (status (range_route sample_cal sample_db [''end'' \<mapsto> ''1970-01-02'']) = 400
    \<and> queries (range_route sample_cal sample_db [''end'' \<mapsto> ''1970-01-02'']) = []
    \<and> (\<exists>details. body (range_route sample_cal sample_db [''end'' \<mapsto> ''1970-01-02''])
            = ValidationFailed details \<and> path ` set details = {''start''}))
   \<and> (status (by_time_route sample_db [''interval'' \<mapsto> ''1 hours'', ''limit'' \<mapsto> ''101'']) = 400
    \<and> queries (by_time_route sample_db [''interval'' \<mapsto> ''1 hours'', ''limit'' \<mapsto> ''101'']) = []
    \<and> (\<exists>details. body (by_time_route sample_db [''interval'' \<mapsto> ''1 hours'', ''limit'' \<mapsto> ''101''])
            = ValidationFailed details \<and> path ` set details = {''interval'', ''limit''}))
   \<and> (status (search_route sample_cal sample_db [''term'' \<mapsto> ''ab'', ''limit'' \<mapsto> ''0'']) = 400
    \<and> queries (search_route sample_cal sample_db [''term'' \<mapsto> ''ab'', ''limit'' \<mapsto> ''0'']) = []
    \<and> (\<exists>details. body (search_route sample_cal sample_db [''term'' \<mapsto> ''ab'', ''limit'' \<mapsto> ''0''])
            = ValidationFailed details \<and> path ` set details = {''term'', ''limit''}))"
proof -
  let ?q1 = "[''limit'' \<mapsto> ''0'', ''offset'' \<mapsto> ''-1'']"
  let ?q2 = "[''end'' \<mapsto> ''1970-01-02'']"
  let ?q3 = "[''interval'' \<mapsto> ''1 hours'', ''limit'' \<mapsto> ''101'']"
  let ?q4 = "[''term'' \<mapsto> ''ab'', ''limit'' \<mapsto> ''0'']"
  have f1: "fails ?q1 limit_chain" "fails ?q1 offset_chain"
    by (simp_all add: fails_limit fails_offset isInt_def toString_def parseInt_samples parseInt_more)
  have s1: "set (map field (filter (fails ?q1) list_chains)) = {''limit'', ''offset''}"
    using f1 by (simp add: list_chains_def chain_fields)
  have e1: "\<exists>c \<in> set list_chains. fails ?q1 c"
    using f1 by (simp add: list_chains_def)
  have f2: "fails ?q2 (range_chains sample_cal ! 0)" "\<not> fails ?q2 (range_chains sample_cal ! 1)"
    by (simp_all add: range_chains_def fails_def isDate_def toString_def sample_cal_def)
  have g2: "\<not> fails ?q2 limit_chain" "\<not> fails ?q2 offset_chain"
    by (simp_all add: fails_limit fails_offset)
  have s2: "set (map field (filter (fails ?q2) (range_chains sample_cal))) = {''start''}"
    using f2 g2 by (simp add: range_chains_def chain_fields)
  have e2: "\<exists>c \<in> set (range_chains sample_cal). fails ?q2 c"
    using f2 by (simp add: range_chains_def)
  have f3: "fails ?q3 (by_time_chains ! 0)"
    by (simp add: by_time_chains_def fails_def isIn_def toString_def VALID_TIME_INTERVALS_def)
  have g3: "fails ?q3 limit_chain"
    by (simp add: fails_limit isInt_def toString_def parseInt_more)
  have s3: "set (map field (filter (fails ?q3) by_time_chains)) = {''interval'', ''limit''}"
    using f3 g3 by (simp add: by_time_chains_def chain_fields)
  have e3: "\<exists>c \<in> set by_time_chains. fails ?q3 c"
    using f3 by (simp add: by_time_chains_def)
  have f4: "fails ?q4 (search_chains ! 0)"
    by (simp add: search_chains_def fails_def isString_def isLength_def toString_def)
  have g4: "fails ?q4 limit_chain"
    by (simp add: fails_limit isInt_def toString_def parseInt_samples)
  have s4: "set (map field (filter (fails ?q4) search_chains)) = {''term'', ''limit''}"
    using f4 g4 by (simp add: search_chains_def chain_fields)
  have e4: "\<exists>c \<in> set search_chains. fails ?q4 c"
    using f4 by (simp add: search_chains_def)
  have r1: "status (list_route sample_cal sample_db ?q1) = 400
      \<and> queries (list_route sample_cal sample_db ?q1) = []
      \<and> (\<exists>details. body (list_route sample_cal sample_db ?q1) = ValidationFailed details
            \<and> path ` set details = {''limit'', ''offset''})"
    using validation_precedes_queries [of ?q1 sample_cal sample_db] e1 s1 by metis
  have r2: "status (range_route sample_cal sample_db ?q2) = 400
      \<and> queries (range_route sample_cal sample_db ?q2) = []
      \<and> (\<exists>details. body (range_route sample_cal sample_db ?q2) = ValidationFailed details
            \<and> path ` set details = {''start''})"
    using validation_precedes_queries [of ?q2 sample_cal sample_db] e2 s2 by metis
  have r3: "status (by_time_route sample_db ?q3) = 400
      \<and> queries (by_time_route sample_db ?q3) = []
      \<and> (\<exists>details. body (by_time_route sample_db ?q3) = ValidationFailed details
            \<and> path ` set details = {''interval'', ''limit''})"
    using validation_precedes_queries [of ?q3 sample_cal sample_db] e3 s3 by metis
  have r4: "status (search_route sample_cal sample_db ?q4) = 400
      \<and> queries (search_route sample_cal sample_db ?q4) = []
      \<and> (\<exists>details. body (search_route sample_cal sample_db ?q4) = ValidationFailed details
            \<and> path ` set details = {''term'', ''limit''})"
    using validation_precedes_queries [of ?q4 sample_cal sample_db] e4 s4 by metis
  from r1 r2 r3 r4 show ?thesis
    by (intro conjI) blast+
qed

section \<open>The by-time route\<close>

text \<open>
  C5. A by-time request whose \<open>interval\<close> is none of the twelve values (or is absent)
  is answered 400 by validation; the error for the field \<open>interval\<close> carries the
  message that lists the twelve values, each of which occurs in it; and no statement is
  issued.
\<close>

theorem by_time_unknown_interval:
  assumes "q ''interval'' \<notin> Some ` set [''1 minute'', ''5 minutes'', ''10 minutes'', ''15 minutes'',
             ''30 minutes'', ''1 hour'', ''2 hours'', ''6 hours'', ''12 hours'', ''1 day'', ''1 week'',
             ''1 month'']"
  shows "status (by_time_route db q) = 400 \<and> queries (by_time_route db q) = []
       \<and> (\<exists>details. body (by_time_route db q) = ValidationFailed details
             \<and> (\<exists>e \<in> set details. path e = ''interval''
                   \<and> msg e = ''Interval must be one of: 1 minute, 5 minutes, 10 minutes, 15 minutes, 30 minutes, 1 hour, 2 hours, 6 hours, 12 hours, 1 day, 1 week, 1 month''
                   \<and> (\<forall>v \<in> set [''1 minute'', ''5 minutes'', ''10 minutes'', ''15 minutes'',
                          ''30 minutes'', ''1 hour'', ''2 hours'', ''6 hours'', ''12 hours'',
                          ''1 day'', ''1 week'', ''1 month'']. sublist v (msg e))))"
proof -
  have notin: "\<not> isIn VALID_TIME_INTERVALS (q ''interval'')"
  proof (cases "q ''interval''")
    case None
    then show ?thesis
      by (simp add: isIn_def toString_def VALID_TIME_INTERVALS_def)
  next
    case (Some s)
    with assms have "s \<notin> set VALID_TIME_INTERVALS"
      unfolding VALID_TIME_INTERVALS_def by auto
    with Some show ?thesis
      by (simp add: isIn_def toString_def)
  qed
  define e where "e = \<lparr>err_value = q ''interval'', msg = interval_message, path = ''interval''\<rparr>"
  have v: "validationResult by_time_chains q = e # run_chain q limit_chain"
    using notin by (simp add: validationResult_def by_time_chains_def run_chain_required e_def)
  have r: "by_time_route db q =
      \<lparr>status = 400, headers = [], body = ValidationFailed (e # run_chain q limit_chain),
       queries = []\<rparr>"
    by (simp add: by_time_route_def validateRequest_def v)
  have names: "\<forall>v \<in> set VALID_TIME_INTERVALS. sublist v (msg e)"
    by (simp add: e_def interval_message_names)
  have "path e = ''interval''" "msg e = interval_message"
    by (simp_all add: e_def)
  with names show ?thesis
    unfolding r interval_message_text VALID_TIME_INTERVALS_def
    by (intro conjI exI [of _ "e # run_chain q limit_chain"] bexI [of _ e]) simp_all
qed

theorem by_time_unknown_interval_witness:
  "status (by_time_route sample_db [''interval'' \<mapsto> ''1 hours'']) = 400
   \<and> queries (by_time_route sample_db [''interval'' \<mapsto> ''1 hours'']) = []
   \<and> (\<exists>details. body (by_time_route sample_db [''interval'' \<mapsto> ''1 hours'']) = ValidationFailed details
         \<and> (\<exists>e \<in> set details. path e = ''interval'' \<and> sublist ''1 hour'' (msg e)))"
proof -
  have "[''interval'' \<mapsto> ''1 hours''] ''interval'' \<notin> Some ` set [''1 minute'', ''5 minutes'', ''10 minutes'', ''15 minutes'',
             ''30 minutes'', ''1 hour'', ''2 hours'', ''6 hours'', ''12 hours'', ''1 day'', ''1 week'',
             ''1 month'']"
    by simp
  from by_time_unknown_interval [of "[''interval'' \<mapsto> ''1 hours'']" sample_db, OF this]
  show ?thesis
    by (elim conjE exE bexE) (intro conjI exI bexI, simp_all)
qed

section \<open>The range route\<close>




section \<open>The search route\<close>

text \<open>
  C6, as the claim states it, fails for a term with a wildcard character: the term
  \<open>a_c\<close> returns the transaction with hash \<open>abc\<close>, which does not contain \<open>a_c\<close>.
\<close>

theorem search_underscore_is_a_wildcard:
  "body (search_route sample_cal sample_db [''term'' \<mapsto> ''a_c'']) =
     RowsTotal [sample_tx ''abc'' 10] 1
   \<and> hash (sample_tx ''abc'' 10) = ''abc''
   \<and> \<not> sublist (lower ''a_c'') (lower ''abc'')"
proof -
  have "lower ''a_c'' = ''a_c''"
    by (simp add: lower_def lower_char_def)
  moreover have "\<not> sublist ''a_c'' ''abc''"
    by (simp add: sublist_Cons_right)
  ultimately show ?thesis
    by (simp add: search_sample_wild lower_samples sample_tx_def)
qed

text \<open>
  C6, amended. A search whose term is shorter than three characters (or absent) is
  answered 400 by validation and issues no statement. A search with a term of at least
  three characters, a \<open>limit\<close> that is absent or in \<open>[1, 100]\<close>, on a store that
  answers, issues the statements with the pattern \<^verbatim>\<open>%term%\<close> and returns the first
  \<open>limit\<close> rows, in descending time order, of the transactions whose hash matches the
  pattern under \<^verbatim>\<open>ILIKE\<close>; when the term has none of \<^verbatim>\<open>%\<close>, \<^verbatim>\<open>_\<close> and
  backslash, these are exactly the transactions whose hash contains the term as a
  substring, case not regarded.
\<close>

theorem search_requests:
  "(length (toString (q ''term'')) < 3 \<longrightarrow>
      status (search_route cal db q) = 400 \<and> queries (search_route cal db q) = []
      \<and> (\<exists>details. body (search_route cal db q) = ValidationFailed details
            \<and> ''term'' \<in> path ` set details))
   \<and> (q ''term'' = Some t \<and> 3 \<le> length t
        \<and> (q ''limit'' = None \<or> isInt (Some 1) (Some 100) (q ''limit''))
        \<and> failure db = None \<longrightarrow>
      (\<exists>matching L.
         search_route cal db q =
           \<lparr>status = 200, headers = [],
            body = RowsTotal (take (nat L) matching) (int (length matching)),
            queries = [RowQ (SelectSearch (''%'' @ t @ ''%'') L),
                       CountQ (CountSearch (''%'' @ t @ ''%''))]\<rparr>
         \<and> L = (case q ''limit'' of None \<Rightarrow> 25 | Some ls \<Rightarrow> parseInt ls)
         \<and> 1 \<le> L \<and> L \<le> 100
         \<and> mset matching =
             filter_mset (\<lambda>x. ilike (hash x) (''%'' @ t @ ''%'')) (mset (transactions db))
         \<and> sorted_wrt (\<lambda>a b. time b \<le> time a) matching
         \<and> (list_all plain t \<longrightarrow>
               mset matching =
                 filter_mset (\<lambda>x. sublist (lower t) (lower (hash x))) (mset (transactions db)))))"
proof (rule conjI; rule impI)
  assume short: "length (toString (q ''term'')) < 3"
  then have f: "fails q (search_chains ! 0)"
    by (rule term_chain_short)
  then have ex: "\<exists>c \<in> set search_chains. fails q c"
    by (auto simp: search_chains_def)
  have "''term'' \<in> set (map field (filter (fails q) search_chains))"
    using f by (simp add: search_chains_def)
  with validation_fails_outcome [OF ex, of "search_handler cal db q"]
  show "status (search_route cal db q) = 400 \<and> queries (search_route cal db q) = []
      \<and> (\<exists>details. body (search_route cal db q) = ValidationFailed details
            \<and> ''term'' \<in> path ` set details)"
    unfolding search_route_def by auto
next
  assume a: "q ''term'' = Some t \<and> 3 \<le> length t
        \<and> (q ''limit'' = None \<or> isInt (Some 1) (Some 100) (q ''limit''))
        \<and> failure db = None"
  define L where "L = or_default (toInt (q ''limit'')) 25"
  define matching where
    "matching = order_by_time_desc
       (filter (\<lambda>x. ilike (hash x) (search_pattern (q ''term''))) (transactions db))"
  have lc: "run_chain q limit_chain = []"
    using a by (simp add: limit_chain_ok)
  note lim = effective_limit [OF lc, of 25, folded L_def]
  have v: "validationResult search_chains q = []"
    using term_chain_ok [of q t] a lc
    by (simp add: validationResult_def search_chains_def)
  have pat: "search_pattern (q ''term'') = ''%'' @ t @ ''%''"
    using a by (simp add: search_pattern_def)
  have sel: "select_rows cal db (SelectSearch (search_pattern (q ''term'')) L) =
      Inr (take (nat L) matching)"
    using a lim by (simp add: select_rows_def limit_offset_def matching_def)
  have cnt: "select_count cal db (CountSearch (search_pattern (q ''term''))) =
      Inr (int (length matching))"
    using a by (simp add: select_count_def matching_def order_by_time_desc_def)
  have r: "search_route cal db q =
      \<lparr>status = 200, headers = [],
       body = RowsTotal (take (nat L) matching) (int (length matching)),
       queries = [RowQ (SelectSearch (search_pattern (q ''term'')) L),
                  CountQ (CountSearch (search_pattern (q ''term'')))]\<rparr>"
    by (simp add: search_route_def validateRequest_def v search_handler_def Let_def sel cnt
        flip: L_def)
  have m: "mset matching =
      filter_mset (\<lambda>x. ilike (hash x) (''%'' @ t @ ''%'')) (mset (transactions db))"
    by (simp only: matching_def mset_order_by_time_desc mset_filter pat)
  have pl: "list_all plain t \<longrightarrow>
      mset matching =
        filter_mset (\<lambda>x. sublist (lower t) (lower (hash x))) (mset (transactions db))"
  proof
    assume "list_all plain t"
    then have eq: "\<And>x. ilike (hash x) (''%'' @ t @ ''%'') \<longleftrightarrow>
        sublist (lower t) (lower (hash x))"
      using ilike_contains [of t] by (simp only: search_pattern_def option.case)
    show "mset matching =
        filter_mset (\<lambda>x. sublist (lower t) (lower (hash x))) (mset (transactions db))"
      using m by (simp only: eq)
  qed
  have s: "sorted_wrt (\<lambda>a b. time b \<le> time a) matching"
    by (simp add: matching_def sorted_order_by_time_desc)
  show "\<exists>matching L.
         search_route cal db q =
           \<lparr>status = 200, headers = [],
            body = RowsTotal (take (nat L) matching) (int (length matching)),
            queries = [RowQ (SelectSearch (''%'' @ t @ ''%'') L),
                       CountQ (CountSearch (''%'' @ t @ ''%''))]\<rparr>
         \<and> L = (case q ''limit'' of None \<Rightarrow> 25 | Some ls \<Rightarrow> parseInt ls)
         \<and> 1 \<le> L \<and> L \<le> 100
         \<and> mset matching =
             filter_mset (\<lambda>x. ilike (hash x) (''%'' @ t @ ''%'')) (mset (transactions db))
         \<and> sorted_wrt (\<lambda>a b. time b \<le> time a) matching
         \<and> (list_all plain t \<longrightarrow>
               mset matching =
                 filter_mset (\<lambda>x. sublist (lower t) (lower (hash x))) (mset (transactions db)))"
    using r [unfolded pat] lim m pl s
    by (intro exI [of _ matching] exI [of _ L]) (simp only: simp_thms)
qed

theorem search_requests_witness:
  "status (search_route sample_cal sample_db [''term'' \<mapsto> ''ab'']) = 400
   \<and> (\<exists>matching.
         body (search_route sample_cal sample_db [''term'' \<mapsto> ''bee'']) =
           RowsTotal (take 25 matching) (int (length matching))
         \<and> sorted_wrt (\<lambda>a b. time b \<le> time a) matching
         \<and> mset matching =
             filter_mset (\<lambda>x. sublist ''bee'' (lower (hash x))) (mset (transactions sample_db)))"
proof -
  have a: "status (search_route sample_cal sample_db [''term'' \<mapsto> ''ab'']) = 400"
    using search_requests [of "[''term'' \<mapsto> ''ab'']" sample_cal sample_db]
    by (simp add: toString_def)
  have l: "lower ''bee'' = ''bee''" "list_all plain ''bee''"
    by (simp_all add: lower_def lower_char_def plain_def)
  have "\<exists>matching L.
         search_route sample_cal sample_db [''term'' \<mapsto> ''bee''] =
           \<lparr>status = 200, headers = [],
            body = RowsTotal (take (nat L) matching) (int (length matching)),
            queries = [RowQ (SelectSearch (''%'' @ ''bee'' @ ''%'') L),
                       CountQ (CountSearch (''%'' @ ''bee'' @ ''%''))]\<rparr>
         \<and> L = (case [''term'' \<mapsto> ''bee''] ''limit'' of None \<Rightarrow> 25 | Some ls \<Rightarrow> parseInt ls)
         \<and> 1 \<le> L \<and> L \<le> 100
         \<and> mset matching =
             filter_mset (\<lambda>x. ilike (hash x) (''%'' @ ''bee'' @ ''%'')) (mset (transactions sample_db))
         \<and> sorted_wrt (\<lambda>a b. time b \<le> time a) matching
         \<and> (list_all plain ''bee'' \<longrightarrow>
               mset matching =
                 filter_mset (\<lambda>x. sublist (lower ''bee'') (lower (hash x)))
                   (mset (transactions sample_db)))"
    using search_requests [of "[''term'' \<mapsto> ''bee'']" sample_cal sample_db "''bee''"]
    by (simp add: sample_up del: append.simps)
  then obtain matching L where
    r: "search_route sample_cal sample_db [''term'' \<mapsto> ''bee''] =
           \<lparr>status = 200, headers = [],
            body = RowsTotal (take (nat L) matching) (int (length matching)),
            queries = [RowQ (SelectSearch (''%'' @ ''bee'' @ ''%'') L),
                       CountQ (CountSearch (''%'' @ ''bee'' @ ''%''))]\<rparr>"
    and L: "L = (case [''term'' \<mapsto> ''bee''] ''limit'' of None \<Rightarrow> 25 | Some ls \<Rightarrow> parseInt ls)"
    and s: "sorted_wrt (\<lambda>a b. time b \<le> time a) matching"
    and m: "list_all plain ''bee'' \<longrightarrow>
               mset matching =
                 filter_mset (\<lambda>x. sublist (lower ''bee'') (lower (hash x)))
                   (mset (transactions sample_db))"
    by blast
  have "L = 25"
    using L by simp
  with r s m l have "body (search_route sample_cal sample_db [''term'' \<mapsto> ''bee'']) =
           RowsTotal (take 25 matching) (int (length matching))
         \<and> sorted_wrt (\<lambda>a b. time b \<le> time a) matching
         \<and> mset matching =
             filter_mset (\<lambda>x. sublist ''bee'' (lower (hash x))) (mset (transactions sample_db))"
    by simp
  with a show ?thesis
    by blast
qed

section \<open>The envelope\<close>

text \<open>
  C3, as the claim states it, fails for the search route: the body of a successful
  search has \<open>rows\<close> and \<open>totalCount\<close> and no \<open>pagination\<close> member.
\<close>

theorem search_success_without_pagination:
  "status (search_route sample_cal sample_db [''term'' \<mapsto> ''bee'']) = 200
   \<and> pagination_block (body (search_route sample_cal sample_db [''term'' \<mapsto> ''bee''])) = None"
  by (simp add: search_sample)

text \<open>
  C3, amended. Every success response of the list and range routes is the envelope
  \<^verbatim>\<open>{rows, totalCount, pagination}\<close>; every success response of the search route is
  \<^verbatim>\<open>{rows, totalCount}\<close>, without a pagination block.
\<close>

theorem success_bodies:
  "(status (list_route cal db q) = 200 \<longrightarrow>
      (\<exists>rows n p. body (list_route cal db q) = Envelope rows n p))
   \<and> (status (range_route cal db q) = 200 \<longrightarrow>
      (\<exists>rows n p. body (range_route cal db q) = Envelope rows n p))
   \<and> (status (search_route cal db q) = 200 \<longrightarrow>
      (\<exists>rows n. body (search_route cal db q) = RowsTotal rows n)
      \<and> pagination_block (body (search_route cal db q)) = None)"
proof (intro conjI impI)
  assume "status (list_route cal db q) = 200"
  then show "\<exists>rows n p. body (list_route cal db q) = Envelope rows n p"
    unfolding list_route_def
    using validateRequest_cases [of list_chains q "list_handler cal db q"] list_handler_success
    by auto
next
  assume "status (range_route cal db q) = 200"
  then show "\<exists>rows n p. body (range_route cal db q) = Envelope rows n p"
    unfolding range_route_def
    using validateRequest_cases [of "range_chains cal" q "range_handler cal db q"]
      range_handler_success
    by auto
next
  assume a: "status (search_route cal db q) = 200"
  then show b: "\<exists>rows n. body (search_route cal db q) = RowsTotal rows n"
    unfolding search_route_def
    using validateRequest_cases [of search_chains q "search_handler cal db q"]
      search_handler_success
    by auto
  then show "pagination_block (body (search_route cal db q)) = None"
    by auto
qed

theorem success_bodies_witness:
  "(\<exists>rows n p. body (list_route sample_cal sample_db [''limit'' \<mapsto> ''2'', ''offset'' \<mapsto> ''1''])
        = Envelope rows n p)
   \<and> (\<exists>rows n p. body (range_route sample_cal sample_db
          [''start'' \<mapsto> ''1970-01-01'', ''end'' \<mapsto> ''1970-01-01'', ''limit'' \<mapsto> ''1''])
        = Envelope rows n p)
   \<and> (\<exists>rows n. body (search_route sample_cal sample_db [''term'' \<mapsto> ''bee'']) = RowsTotal rows n)
   \<and> pagination_block (body (search_route sample_cal sample_db [''term'' \<mapsto> ''bee''])) = None"
proof -
  have "status (list_route sample_cal sample_db [''limit'' \<mapsto> ''2'', ''offset'' \<mapsto> ''1'']) = 200"
    by (simp add: list_sample)
  moreover have "status (range_route sample_cal sample_db
      [''start'' \<mapsto> ''1970-01-01'', ''end'' \<mapsto> ''1970-01-01'', ''limit'' \<mapsto> ''1'']) = 200"
    by (simp add: range_sample)
  moreover have "status (search_route sample_cal sample_db [''term'' \<mapsto> ''bee'']) = 200"
    by (simp add: search_sample)
  ultimately show ?thesis
    using success_bodies [of sample_cal sample_db "[''limit'' \<mapsto> ''2'', ''offset'' \<mapsto> ''1'']"]
      success_bodies [of sample_cal sample_db
        "[''start'' \<mapsto> ''1970-01-01'', ''end'' \<mapsto> ''1970-01-01'', ''limit'' \<mapsto> ''1'']"]
      success_bodies [of sample_cal sample_db "[''term'' \<mapsto> ''bee'']"]
    by blast
qed

section \<open>The lookup by hash\<close>

text \<open>
  C7. A lookup by hash on a store that answers returns one row at most: when no
  transaction has the hash, the answer is 404 with the error body
  \<^verbatim>\<open>{error: "Transaction not found"}\<close> (not 500, not an empty 200); when one has, the
  answer is 200 with a single row of that hash.
\<close>

theorem by_hash_lookup:
  assumes up: "failure db = None"
  shows "(h \<notin> hash ` set (transactions db) \<longrightarrow>
            transaction_by_hash cal db h =
              \<lparr>status = 404, headers = [], body = ErrorOnly ''Transaction not found'',
               queries = [RowQ (SelectByHash h)]\<rparr>)
       \<and> (h \<in> hash ` set (transactions db) \<longrightarrow>
            (\<exists>r \<in> set (transactions db). hash r = h \<and>
               transaction_by_hash cal db h =
                 \<lparr>status = 200, headers = [], body = Row r,
                  queries = [RowQ (SelectByHash h)]\<rparr>))"
proof (intro conjI impI)
  assume "h \<notin> hash ` set (transactions db)"
  then have "filter (\<lambda>t. hash t = h) (transactions db) = []"
    by (auto simp: filter_empty_conv)
  then show "transaction_by_hash cal db h =
              \<lparr>status = 404, headers = [], body = ErrorOnly ''Transaction not found'',
               queries = [RowQ (SelectByHash h)]\<rparr>"
    using up by (simp add: transaction_by_hash_def select_rows_def)
next
  assume "h \<in> hash ` set (transactions db)"
  then have "filter (\<lambda>t. hash t = h) (transactions db) \<noteq> []"
    by (auto simp: filter_empty_conv)
  then obtain r rs where f: "filter (\<lambda>t. hash t = h) (transactions db) = r # rs"
    by (cases "filter (\<lambda>t. hash t = h) (transactions db)") auto
  then have "r \<in> set (filter (\<lambda>t. hash t = h) (transactions db))"
    by simp
  then have "r \<in> set (transactions db)" "hash r = h"
    by auto
  then show "\<exists>r \<in> set (transactions db). hash r = h \<and>
               transaction_by_hash cal db h =
                 \<lparr>status = 200, headers = [], body = Row r,
                  queries = [RowQ (SelectByHash h)]\<rparr>"
    using up f by (auto simp: transaction_by_hash_def select_rows_def)
qed

theorem by_hash_lookup_witness:
  "transaction_by_hash sample_cal sample_db ''deadbeef'' =
     \<lparr>status = 404, headers = [], body = ErrorOnly ''Transaction not found'',
      queries = [RowQ (SelectByHash ''deadbeef'')]\<rparr>
   \<and> (\<exists>r \<in> set (transactions sample_db). hash r = ''dead'' \<and>
         transaction_by_hash sample_cal sample_db ''dead'' =
           \<lparr>status = 200, headers = [], body = Row r,
            queries = [RowQ (SelectByHash ''dead'')]\<rparr>)"
proof -
  have a: "''deadbeef'' \<notin> hash ` set (transactions sample_db)"
    and b: "''dead'' \<in> hash ` set (transactions sample_db)"
    by (simp_all add: sample_db_def sample_tx_def)
  show ?thesis
    using by_hash_lookup [of sample_db "''deadbeef''" sample_cal]
      by_hash_lookup [of sample_db "''dead''" sample_cal] a b
    by (simp add: sample_up)
qed

section \<open>The client\<close>

text \<open>
  C8. Every data-access method turns a non-success response into an error whose message
  is the body's \<open>message\<close>, else its \<open>error\<close>, else a generic text with the status.
  \<^verbatim>\<open>searchTransactions\<close> and \<^verbatim>\<open>getTransactionsByTime\<close> do, through
  \<^verbatim>\<open>handleErrorResponse\<close>. \<^verbatim>\<open>getTransactions\<close> and \<^verbatim>\<open>getTransactionsByDateRange\<close>
  call \<^verbatim>\<open>this.handleResponseError\<close>, which the class does not have: on the 400 answer
  with body \<^verbatim>\<open>{error: "Validation failed", details: []}\<close> they throw a \<^verbatim>\<open>TypeError\<close>
  whose message is neither the body's \<open>error\<close> nor a text with the status.
\<close>

theorem getTransactions_throws_TypeError:
  "result (getTransactions sample_fetch (Some 25) (Some 0)) =
     Inl (TypeError ''this.handleResponseError is not a function'')
   \<and> result (getTransactionsByDateRange sample_fetch ''2025-03-02'' ''2025-03-01'' None None) =
     Inl (TypeError ''this.handleResponseError is not a function'')
   \<and> result (searchTransactions sample_fetch ''ab'' None None) = Inl (Error ''Validation failed'')
   \<and> result (getTransactionsByTime sample_fetch (Some ''1 hours'') None) =
     Inl (Error ''Validation failed'')"
  by (simp add: getTransactions_def getTransactionsByDateRange_def searchTransactions_def
      getTransactionsByTime_def respond_not_ok [OF _ sample_not_ok] sample_fetch_def
      call_this_def response_method_def sample_error_message)

text \<open>
  C10. \<^verbatim>\<open>searchTransactions\<close> takes an \<open>offset\<close> and does not use it: the one URL it
  requests is built from the term and the limit alone, so two calls that differ only in
  the offset request the same URL and return (or throw) the same.
\<close>

theorem search_ignores_offset:
  "searchTransactions fetch term l off = searchTransactions fetch term l off'
   \<and> requests (searchTransactions fetch term l off) =
       [''/api/transactions/search?term='' @ encodeURIComponent term
        @ ''&limit='' @ string_of_int (default_arg l 25)]"
  by (simp add: searchTransactions_def respond_def)

end
